theory Spec2Isabelle
  imports Complex_Main
begin

section \<open>JavaScript numbers\<close>

text \<open>
  A JavaScript number is a double: a finite number, an infinity or \<open>NaN\<close>. The finite
  numbers are modelled as reals. An arithmetic operation on two finite numbers computes the
  exact result and rounds it to a double; the rounding is the parameter \<open>fl\<close> of the
  operations: it gives the nearest double, or an infinity when the exact result is beyond the
  largest double. Nothing is assumed about \<open>fl\<close> here. Division by zero,
  \<open>Infinity - Infinity\<close>, \<open>0 * Infinity\<close> and every operation on \<open>NaN\<close> behave as in the
  language. The sign of zero is not modelled (every zero is \<open>+0\<close>).
\<close>

datatype jsnum = NaN | NegInf | Fin real | PosInf

type_synonym rounding = "real \<Rightarrow> jsnum"

fun js_neg :: "jsnum \<Rightarrow> jsnum" where
  "js_neg NaN = NaN"
| "js_neg NegInf = PosInf"
| "js_neg PosInf = NegInf"
| "js_neg (Fin a) = Fin (- a)"

fun js_add :: "rounding \<Rightarrow> jsnum \<Rightarrow> jsnum \<Rightarrow> jsnum" where
  "js_add fl (Fin a) (Fin b) = fl (a + b)"
| "js_add fl NaN y = NaN"
| "js_add fl x NaN = NaN"
| "js_add fl PosInf NegInf = NaN"
| "js_add fl NegInf PosInf = NaN"
| "js_add fl PosInf y = PosInf"
| "js_add fl x PosInf = PosInf"
| "js_add fl NegInf y = NegInf"
| "js_add fl x NegInf = NegInf"

definition js_sub :: "rounding \<Rightarrow> jsnum \<Rightarrow> jsnum \<Rightarrow> jsnum" where
  "js_sub fl x y = js_add fl x (js_neg y)"

fun js_negative :: "jsnum \<Rightarrow> bool" where
  "js_negative NegInf = True"
| "js_negative (Fin a) = (a < 0)"
| "js_negative x = False"

fun js_mul :: "rounding \<Rightarrow> jsnum \<Rightarrow> jsnum \<Rightarrow> jsnum" where
  "js_mul fl (Fin a) (Fin b) = fl (a * b)"
| "js_mul fl NaN y = NaN"
| "js_mul fl x NaN = NaN"
| "js_mul fl x y =
     (if x = Fin 0 \<or> y = Fin 0 then NaN
      else if js_negative x = js_negative y then PosInf else NegInf)"

fun js_div :: "rounding \<Rightarrow> jsnum \<Rightarrow> jsnum \<Rightarrow> jsnum" where
  "js_div fl (Fin a) (Fin b) =
     (if b = 0 then (if a = 0 then NaN else if a < 0 then NegInf else PosInf)
      else fl (a / b))"
| "js_div fl NaN y = NaN"
| "js_div fl x NaN = NaN"
| "js_div fl (Fin a) y = Fin 0"
| "js_div fl x (Fin b) = (if js_negative x = (b < 0) then PosInf else NegInf)"
| "js_div fl x y = NaN"

text \<open>The relational operators; every comparison with \<open>NaN\<close> is false.\<close>

fun js_lt :: "jsnum \<Rightarrow> jsnum \<Rightarrow> bool" where
  "js_lt (Fin a) (Fin b) = (a < b)"
| "js_lt NaN y = False"
| "js_lt x NaN = False"
| "js_lt PosInf y = False"
| "js_lt x NegInf = False"
| "js_lt x y = True"

definition js_gt :: "jsnum \<Rightarrow> jsnum \<Rightarrow> bool" where
  "js_gt x y = js_lt y x"

definition js_le :: "jsnum \<Rightarrow> jsnum \<Rightarrow> bool" where
  "js_le x y = (x \<noteq> NaN \<and> y \<noteq> NaN \<and> \<not> js_lt y x)"

text \<open>\<open>x === y\<close> on numbers: \<open>NaN\<close> is not equal to itself.\<close>

definition js_eq :: "jsnum \<Rightarrow> jsnum \<Rightarrow> bool" where
  "js_eq x y = (x \<noteq> NaN \<and> x = y)"

text \<open>
  \<open>Math.min\<close>, \<open>Math.max\<close>, \<open>Math.round\<close> (to the nearest integer, a half upwards),
  \<open>Math.floor\<close>, \<open>isNaN\<close>. None of them rounds: the result of each is one of its arguments or
  an integer that is a double whenever the argument is.
\<close>

definition Math_min :: "jsnum \<Rightarrow> jsnum \<Rightarrow> jsnum" where
  "Math_min x y = (if x = NaN \<or> y = NaN then NaN else if js_lt y x then y else x)"

definition Math_max :: "jsnum \<Rightarrow> jsnum \<Rightarrow> jsnum" where
  "Math_max x y = (if x = NaN \<or> y = NaN then NaN else if js_lt x y then y else x)"

fun Math_round :: "jsnum \<Rightarrow> jsnum" where
  "Math_round (Fin a) = Fin (of_int \<lfloor>a + 1 / 2\<rfloor>)"
| "Math_round x = x"

fun Math_floor :: "jsnum \<Rightarrow> jsnum" where
  "Math_floor (Fin a) = Fin (of_int \<lfloor>a\<rfloor>)"
| "Math_floor x = x"

definition isNaN :: "jsnum \<Rightarrow> bool" where
  "isNaN x = (x = NaN)"

text \<open>Truthiness of a number: \<open>0\<close> and \<open>NaN\<close> are falsy.\<close>

definition truthy :: "jsnum \<Rightarrow> bool" where
  "truthy x = (x \<noteq> NaN \<and> x \<noteq> Fin 0)"

text \<open>A finite number between two reals.\<close>

fun in_range :: "real \<Rightarrow> real \<Rightarrow> jsnum \<Rightarrow> bool" where
  "in_range lo hi (Fin a) = (lo \<le> a \<and> a \<le> hi)"
| "in_range lo hi x = False"

section \<open>Slider\<close>

text \<open>
  The values a Slider keeps in \<open>state.value\<close>, \<open>state.valueLower\<close> and
  \<open>state.valueUpper\<close>: a number, \<open>undefined\<close> (a prop that was not passed), or the raw
  string of the text input.
\<close>

datatype sval = Undefined | Num jsnum | Str string

datatype HandlePosition = LOWER | UPPER

record rect =
  rect_left :: jsnum
  rect_right :: jsnum

text \<open>
  What the Slider takes from its host: the bounding rectangle of its element (\<open>None\<close> when
  there is no element), the rounding of double arithmetic, and the language's conversions
  between strings and numbers. They are parameters of the model.
\<close>

record env =
  boundingRect :: "rect option"
  double :: rounding
  StringToNumber :: "string \<Rightarrow> jsnum"
  NumberToString :: "jsnum \<Rightarrow> string"
  parseFloat :: "string \<Rightarrow> jsnum"

record props =
  min_prop :: jsnum
  max_prop :: jsnum
  step_prop :: "jsnum option"
  stepMultiplier_prop :: "jsnum option"
  disabled_prop :: bool
  readOnly_prop :: bool
  twoHandles_prop :: bool
  value_prop :: "jsnum option"
  valueLower_prop :: "jsnum option"
  valueUpper_prop :: "jsnum option"
  onChange_prop :: bool
  onRelease_prop :: bool

record state =
  value_state :: sval
  valueLower_state :: sval
  valueUpper_state :: sval
  left_state :: jsnum
  leftLower_state :: jsnum
  leftUpper_state :: jsnum
  needsOnRelease :: bool
  isValid :: bool
  activeHandle :: "HandlePosition option"

record value_left =
  value_of :: sval
  left_of :: jsnum

text \<open>Coercions of a state value: to a number, to a condition.\<close>

definition to_number :: "env \<Rightarrow> sval \<Rightarrow> jsnum" where
  "to_number e v = (case v of Undefined \<Rightarrow> NaN | Num n \<Rightarrow> n | Str s \<Rightarrow> StringToNumber e s)"

definition truthy_sval :: "sval \<Rightarrow> bool" where
  "truthy_sval v = (case v of Undefined \<Rightarrow> False | Num n \<Rightarrow> truthy n | Str s \<Rightarrow> s \<noteq> [])"

definition of_prop :: "jsnum option \<Rightarrow> sval" where
  "of_prop v = (case v of None \<Rightarrow> Undefined | Some n \<Rightarrow> Num n)"

text \<open>\<open>Slider.defaultProps.step\<close> and \<open>Slider.defaultProps.stepMultiplier\<close>.\<close>

definition defaultProps_step :: jsnum where
  "defaultProps_step = Fin 1"

definition defaultProps_stepMultiplier :: jsnum where
  "defaultProps_stepMultiplier = Fin 4"

text \<open>\<open>this.props.step ?? Slider.defaultProps.step\<close>\<close>

definition step_or_default :: "props \<Rightarrow> jsnum" where
  "step_or_default p = (case step_prop p of None \<Rightarrow> defaultProps_step | Some s \<Rightarrow> s)"

definition clamp :: "jsnum \<Rightarrow> jsnum \<Rightarrow> jsnum \<Rightarrow> jsnum" where
  "clamp val mn mx = Math_max mn (Math_min val mx)"

definition calcLeftPercent :: "env \<Rightarrow> props \<Rightarrow> jsnum option \<Rightarrow> sval \<Rightarrow> jsnum \<Rightarrow> jsnum" where
  "calcLeftPercent e p clientX v rng =
     (let width0 = (case boundingRect e of
                      Some r \<Rightarrow> js_sub (double e) (rect_right r) (rect_left r)
                    | None \<Rightarrow> Fin 0);
          width = (if js_le width0 (Fin 0) then Fin 1 else width0);
          from_value =
            (if truthy_sval v \<and> truthy rng
             then (if js_eq rng (Fin 0) then Fin 0
                   else js_div (double e) (js_sub (double e) (to_number e v) (min_prop p)) rng)
             else Fin 0)
      in case clientX of
           None \<Rightarrow> from_value
         | Some x \<Rightarrow>
             if truthy x
             then js_div (double e)
                    (js_sub (double e) x (case boundingRect e of
                                            Some r \<Rightarrow> rect_left r
                                          | None \<Rightarrow> Fin 0)) width
             else from_value)"

definition calcSteppedValuePercent :: "env \<Rightarrow> props \<Rightarrow> jsnum \<Rightarrow> jsnum \<Rightarrow> jsnum \<times> jsnum" where
  "calcSteppedValuePercent e p leftPercent rng =
     (let totalSteps = js_div (double e) rng (step_or_default p);
          steppedValue = js_mul (double e) (Math_round (js_mul (double e) leftPercent totalSteps))
                           (step_or_default p);
          steppedPercent = clamp (js_div (double e) steppedValue rng) (Fin 0) (Fin 1)
      in (clamp (js_add (double e) steppedValue (min_prop p)) (min_prop p) (max_prop p),
          steppedPercent))"

definition calcValue :: "env \<Rightarrow> props \<Rightarrow> jsnum option \<Rightarrow> sval \<Rightarrow> bool \<Rightarrow> value_left" where
  "calcValue e p clientX v useRawValue =
     (let rng = js_sub (double e) (max_prop p) (min_prop p);
          leftPercent = calcLeftPercent e p clientX v rng
      in if useRawValue
         then \<lparr>value_of = v,
               left_of = js_mul (double e) (Math_min (Fin 1) (Math_max (Fin 0) leftPercent))
                           (Fin 100)\<rparr>
         else (case calcSteppedValuePercent e p leftPercent rng of
                 (steppedValue, steppedPercent) \<Rightarrow>
                   \<lparr>value_of = Num steppedValue,
                    left_of = js_mul (double e) steppedPercent (Fin 100)\<rparr>))"

text \<open>
  \<open>calcValueForDelta\<close>: \<open>(delta > 0 ? Math.floor(currentValue / step) * step : currentValue) + delta\<close>.
  The \<open>+\<close> of a string and a number concatenates. The \<open>step\<close> parameter has the default
  \<open>Slider.defaultProps.step\<close>.
\<close>

definition calcValueForDelta :: "env \<Rightarrow> sval \<Rightarrow> jsnum \<Rightarrow> jsnum option \<Rightarrow> sval" where
  "calcValueForDelta e currentValue delta step =
     (let stp = (case step of None \<Rightarrow> defaultProps_step | Some s \<Rightarrow> s)
      in if js_gt delta (Fin 0)
         then Num (js_add (double e)
                     (js_mul (double e)
                        (Math_floor (js_div (double e) (to_number e currentValue) stp)) stp)
                     delta)
         else (case currentValue of
                 Str s \<Rightarrow> Str (s @ NumberToString e delta)
               | _ \<Rightarrow> Num (js_add (double e) (to_number e currentValue) delta)))"

text \<open>
  \<open>a < b\<close> and \<open>a > b\<close> on state values: two strings are compared as strings, anything
  else as numbers.
\<close>

fun str_lt :: "string \<Rightarrow> string \<Rightarrow> bool" where
  "str_lt [] [] = False"
| "str_lt [] (y # ys) = True"
| "str_lt (x # xs) [] = False"
| "str_lt (x # xs) (y # ys) = ((of_char x :: nat) < of_char y \<or> (x = y \<and> str_lt xs ys))"

definition sval_lt :: "env \<Rightarrow> sval \<Rightarrow> sval \<Rightarrow> bool" where
  "sval_lt e a b =
     (case (a, b) of
        (Str s, Str t) \<Rightarrow> str_lt s t
      | _ \<Rightarrow> js_lt (to_number e a) (to_number e b))"

definition sval_gt :: "env \<Rightarrow> sval \<Rightarrow> sval \<Rightarrow> bool" where
  "sval_gt e a b = sval_lt e b a"

text \<open>\<open>a === b\<close> on state values.\<close>

fun sval_eq :: "sval \<Rightarrow> sval \<Rightarrow> bool" where
  "sval_eq Undefined Undefined = True"
| "sval_eq (Num x) (Num y) = js_eq x y"
| "sval_eq (Str s) (Str t) = (s = t)"
| "sval_eq a b = False"

text \<open>
  \<open>setStateForHandle\<close>. Its comment in the source: ``Guards against setting either lower or
  upper values beyond its counterpart.''
\<close>

definition setStateForHandle :: "env \<Rightarrow> HandlePosition \<Rightarrow> value_left \<Rightarrow> state \<Rightarrow> state" where
  "setStateForHandle e handle vl st =
     (if handle = LOWER
      then st\<lparr>valueLower_state :=
                 (if truthy_sval (valueUpper_state st) \<and> sval_gt e (value_of vl) (valueUpper_state st)
                  then valueUpper_state st else value_of vl),
               leftLower_state :=
                 (if truthy_sval (valueUpper_state st) \<and> sval_gt e (value_of vl) (valueUpper_state st)
                  then leftUpper_state st else left_of vl),
               isValid := True\<rparr>
      else st\<lparr>valueUpper_state :=
                 (if truthy_sval (valueLower_state st) \<and> sval_lt e (value_of vl) (valueLower_state st)
                  then valueLower_state st else value_of vl),
               leftUpper_state :=
                 (if truthy_sval (valueLower_state st) \<and> sval_lt e (value_of vl) (valueLower_state st)
                  then leftLower_state st else left_of vl),
               isValid := True\<rparr>)"

text \<open>
  A drag event: a mouse event carries \<open>clientX\<close>, a touch event the \<open>clientX\<close> of each of its
  touches. \<open>None\<close> is the missing event.
\<close>

datatype drag_event = MouseEvent jsnum | TouchEvent "jsnum list" | OtherEvent

text \<open>
  \<open>_onDrag\<close>, the handler that \<open>onDrag\<close> throttles. The throttling itself (at most one call
  every 16 ms) is not part of the model.
\<close>

definition onDrag :: "env \<Rightarrow> props \<Rightarrow> drag_event option \<Rightarrow> HandlePosition option \<Rightarrow> state \<Rightarrow> state" where
  "onDrag e p evt activeHandle0 st =
     (let activeHandle1 = (case activeHandle0 of None \<Rightarrow> activeHandle st | Some h \<Rightarrow> Some h);
          clientX = (case evt of
                       Some (MouseEvent x) \<Rightarrow> Some x
                     | Some (TouchEvent (x # xs)) \<Rightarrow> Some x
                     | _ \<Rightarrow> None)
      in if disabled_prop p \<or> readOnly_prop p \<or> evt = None then st
         else (case clientX of
                 None \<Rightarrow> st
               | Some x \<Rightarrow>
                   (let vl = calcValue e p (Some x) (value_state st) False
                    in case (twoHandles_prop p, activeHandle1) of
                         (True, Some h) \<Rightarrow> setStateForHandle e h vl st
                       | _ \<Rightarrow> st\<lparr>value_state := value_of vl, left_state := left_of vl,
                                 isValid := True\<rparr>)))"

datatype key = ArrowDown | ArrowLeft | ArrowUp | ArrowRight | OtherKey

text \<open>A keyboard event; \<open>which = None\<close> when the event has no \<open>which\<close>.\<close>

record key_event =
  which :: "key option"
  shiftKey :: bool

definition stepMultiplier_or_default :: "props \<Rightarrow> jsnum" where
  "stepMultiplier_or_default p =
     (case stepMultiplier_prop p of None \<Rightarrow> defaultProps_stepMultiplier | Some m \<Rightarrow> m)"

definition onKeyDown :: "env \<Rightarrow> props \<Rightarrow> key_event \<Rightarrow> state \<Rightarrow> state" where
  "onKeyDown e p evt st =
     (if disabled_prop p \<or> readOnly_prop p \<or> which evt = None then st
      else (case (if which evt = Some ArrowDown \<or> which evt = Some ArrowLeft
                  then Some (js_neg (step_or_default p))
                  else if which evt = Some ArrowUp \<or> which evt = Some ArrowRight
                  then Some (step_or_default p)
                  else None) of
              None \<Rightarrow> st
            | Some delta0 \<Rightarrow>
                (let delta = (if shiftKey evt
                              then js_mul (double e) delta0 (stepMultiplier_or_default p)
                              else delta0)
                 in case (twoHandles_prop p, activeHandle st) of
                      (True, Some h) \<Rightarrow>
                        (let currentValue = (if h = LOWER then valueLower_state st
                                             else valueUpper_state st);
                             vl = calcValue e p None
                                    (calcValueForDelta e currentValue delta (step_prop p)) False
                         in setStateForHandle e h vl st)
                    | _ \<Rightarrow>
                        (let vl = calcValue e p None
                                    (calcValueForDelta e (value_state st) delta (step_prop p)) False
                         in st\<lparr>value_state := value_of vl, left_state := left_of vl,
                                isValid := True\<rparr>))))"

text \<open>
  A change event of a text input: \<open>target_value = None\<close> when \<open>evt.target.value\<close> is not a
  string; \<open>handlePosition\<close> is \<open>evt.target.dataset.handlePosition\<close>, which the render sets to
  the handle's position on the inputs of a two-handle Slider and leaves out otherwise.
\<close>

record input_event =
  target_value :: "string option"
  handlePosition :: "HandlePosition option"

definition onChange :: "env \<Rightarrow> props \<Rightarrow> input_event option \<Rightarrow> state \<Rightarrow> state" where
  "onChange e p evt st =
     (if disabled_prop p \<or> readOnly_prop p then st
      else (case evt of
              None \<Rightarrow> st
            | Some ev \<Rightarrow>
                (case target_value ev of
                   None \<Rightarrow> st
                 | Some s \<Rightarrow>
                     (let targetValue = parseFloat e s;
                          activeHandle1 = (case handlePosition ev of None \<Rightarrow> LOWER | Some h \<Rightarrow> h)
                      in if isNaN targetValue
                         then (if twoHandles_prop p \<and> activeHandle1 = LOWER
                               then st\<lparr>valueLower_state := Str s\<rparr>
                               else if twoHandles_prop p \<and> activeHandle1 = UPPER
                               then st\<lparr>valueUpper_state := Str s\<rparr>
                               else st\<lparr>value_state := Str s\<rparr>)
                         else (let vl = calcValue e p None (Num targetValue) True
                               in if twoHandles_prop p
                                  then setStateForHandle e activeHandle1 vl st
                                  else st\<lparr>value_state := value_of vl,
                                          left_state := left_of vl\<rparr>)))))"

text \<open>
  \<open>componentDidUpdate\<close>: the callbacks it fires, in order, and the state it sets. Its writes
  to the style of the thumb and of the filled track change no state and are left out.
\<close>

datatype callback = OnChange sval sval sval | OnRelease sval

definition props_unchanged :: "props \<Rightarrow> props \<Rightarrow> bool" where
  "props_unchanged prevProps p =
     (sval_eq (of_prop (value_prop prevProps)) (of_prop (value_prop p)) \<and>
      sval_eq (of_prop (valueLower_prop prevProps)) (of_prop (valueLower_prop p)) \<and>
      sval_eq (of_prop (valueUpper_prop prevProps)) (of_prop (valueUpper_prop p)) \<and>
      js_eq (max_prop prevProps) (max_prop p) \<and>
      js_eq (min_prop prevProps) (min_prop p))"

definition componentDidUpdate :: "env \<Rightarrow> props \<Rightarrow> state \<Rightarrow> props \<Rightarrow> state \<Rightarrow> state \<times> callback list" where
  "componentDidUpdate e prevProps prevState p st =
     (let changed = (\<not> sval_eq (value_state prevState) (value_state st) \<or>
                     \<not> sval_eq (valueLower_state prevState) (valueLower_state st) \<or>
                     \<not> sval_eq (valueUpper_state prevState) (valueUpper_state st));
          cb1 = (if changed \<and> onChange_prop p
                 then [OnChange (value_state st) (valueLower_state st) (valueUpper_state st)]
                 else []);
          cb2 = (if needsOnRelease st \<and> onRelease_prop p then [OnRelease (value_state st)] else []);
          st1 = (if needsOnRelease st \<and> onRelease_prop p then st\<lparr>needsOnRelease := False\<rparr> else st)
      in if props_unchanged prevProps p then (st1, cb1 @ cb2)
         else (let vl = calcValue e p None (of_prop (value_prop p)) True
               in (st1\<lparr>value_state := value_of vl, left_state := left_of vl\<rparr>, cb1 @ cb2)))"

section \<open>FilterableMultiSelect\<close>

text \<open>
  The state the component keeps with \<open>useState\<close> and that its menu and selection handlers
  touch. Items are of any type \<open>'i\<close>.
\<close>

record 'i fms_state =
  isOpen :: bool
  prevOpen :: bool
  inputValue :: string
  topItems :: "'i list"
  highlightedIndex :: int
  currentSelectedItems :: "'i list"

datatype selectionFeedback = Top | Fixed | TopAfterReopen

text \<open>
  The props the handlers read. A callback prop is modelled by whether it was passed; the calls
  made to it are collected in the order they happen. \<open>sortItems\<close> takes the filtered items and
  the list to pin to the top (its \<open>selectedItems\<close> option); \<open>filterItems\<close> takes the items and
  the input value. Their other options (\<open>itemToString\<close>, \<open>compareItems\<close>, \<open>locale\<close>) do not
  change between calls.
\<close>

record 'i fms_props =
  open_prop :: bool
  initialSelectedItems :: "'i list"
  items :: "'i list"
  selectionFeedback_prop :: selectionFeedback
  sortItems :: "'i list \<Rightarrow> 'i list \<Rightarrow> 'i list"
  filterItems :: "'i list \<Rightarrow> string \<Rightarrow> 'i list"
  onChange_given :: bool
  onMenuChange_given :: bool
  onInputValueChange_given :: bool

datatype 'i fms_callback = OnMenuChange bool | OnSelectionChange "'i list" | OnInputValueChange string

definition initialState :: "'i fms_props \<Rightarrow> 'i fms_state" where
  "initialState p =
     \<lparr>isOpen = open_prop p, prevOpen = open_prop p, inputValue = [],
      topItems = initialSelectedItems p, highlightedIndex = 0,
      currentSelectedItems = initialSelectedItems p\<rparr>"

text \<open>
  During render: \<open>if (prevOpen !== open) { setIsOpen(open); setPrevOpen(open); }\<close>
\<close>

definition syncOpen :: "'i fms_props \<Rightarrow> 'i fms_state \<Rightarrow> 'i fms_state" where
  "syncOpen p s =
     (if prevOpen s \<noteq> open_prop p then s\<lparr>isOpen := open_prop p, prevOpen := open_prop p\<rparr>
      else s)"

text \<open>
  The effect on \<open>[currentSelectedItems, isOpen, setTopItems]\<close>:
  \<open>if (!isOpen) { setTopItems(currentSelectedItems); }\<close>
\<close>

definition topItemsEffect :: "'i fms_state \<Rightarrow> 'i fms_state" where
  "topItemsEffect s = (if \<not> isOpen s then s\<lparr>topItems := currentSelectedItems s\<rparr> else s)"

text \<open>
  A handler is a closure of the render it was created in: what it reads of the state is the
  state \<open>r\<close> of that render, and its calls of the setters are queued. The state \<open>s\<close> is \<open>r\<close>
  with the updates queued so far; a handler returns it with its own updates, and the calls it
  made to the callback props.
\<close>

definition handleOnChange ::
  "'i fms_props \<Rightarrow> 'i list \<Rightarrow> 'i fms_state \<Rightarrow> 'i fms_state \<times> 'i fms_callback list" where
  "handleOnChange p selectedItems s =
     (s\<lparr>currentSelectedItems := selectedItems\<rparr>,
      if onChange_given p then [OnSelectionChange selectedItems] else [])"

definition handleOnMenuChange ::
  "'i fms_props \<Rightarrow> 'i fms_state \<Rightarrow> bool option \<Rightarrow> 'i fms_state \<Rightarrow> 'i fms_state \<times> 'i fms_callback list" where
  "handleOnMenuChange p r forceIsOpen s =
     (let nextIsOpen = (case forceIsOpen of None \<Rightarrow> \<not> isOpen r | Some b \<Rightarrow> b);
          s1 = s\<lparr>isOpen := nextIsOpen\<rparr>
      in (if \<not> isOpen r then s1\<lparr>highlightedIndex := 0\<rparr> else s1,
          if onMenuChange_given p then [OnMenuChange nextIsOpen] else []))"

definition handleOnOuterClick ::
  "'i fms_props \<Rightarrow> 'i fms_state \<Rightarrow> 'i fms_state \<Rightarrow> 'i fms_state \<times> 'i fms_callback list" where
  "handleOnOuterClick p r s = handleOnMenuChange p r (Some False) s"

datatype stateChangeType =
  keyDownArrowDown | keyDownArrowUp | InputKeyDownHome | InputKeyDownEnd | keyDownEscape
  | changeInput | keyDownEnter | clickItem | otherChange

record 'i changes =
  change_type :: stateChangeType
  change_highlightedIndex :: "int option"
  change_selectedItems :: "'i list"
  change_selectedItem :: 'i

text \<open>\<open>{top: ..., fixed: [], 'top-after-reopen': topItems}[selectionFeedback]\<close>\<close>

definition pinnedItems :: "selectionFeedback \<Rightarrow> 'i list \<Rightarrow> 'i list \<Rightarrow> 'i list" where
  "pinnedItems feedback selectedItems tops =
     (case feedback of Top \<Rightarrow> selectedItems | Fixed \<Rightarrow> [] | TopAfterReopen \<Rightarrow> tops)"

text \<open>\<open>Array.prototype.indexOf\<close>: the first index of the element, or \<open>-1\<close>.\<close>

fun indexOf :: "'a list \<Rightarrow> 'a \<Rightarrow> int" where
  "indexOf [] y = - 1"
| "indexOf (x # xs) y = (if x = y then 0 else (let i = indexOf xs y in if i < 0 then - 1 else i + 1))"

definition handleOnStateChange ::
  "'i fms_props \<Rightarrow> 'i fms_state \<Rightarrow> 'i changes \<Rightarrow> 'i fms_state \<Rightarrow> 'i fms_state \<times> 'i fms_callback list" where
  "handleOnStateChange p r changes s =
     (case change_type changes of
        keyDownEscape \<Rightarrow>
          (case handleOnMenuChange p r (Some False) s of
             (s1, calls) \<Rightarrow> (s1\<lparr>highlightedIndex := 0\<rparr>, calls))
      | changeInput \<Rightarrow> (s\<lparr>highlightedIndex := 0\<rparr>, [])
      | keyDownEnter \<Rightarrow> (if \<not> isOpen r then s\<lparr>highlightedIndex := 0\<rparr> else s, [])
      | clickItem \<Rightarrow>
          (if isOpen r
           then (let sortedItems =
                       sortItems p (filterItems p (items p) (inputValue r))
                         (pinnedItems (selectionFeedback_prop p) (change_selectedItems changes)
                            (topItems r))
                 in (s\<lparr>highlightedIndex := indexOf sortedItems (change_selectedItem changes)\<rparr>, []))
           else (s, []))
      | otherChange \<Rightarrow> (s, [])
      | t \<Rightarrow>
          (let s1 = s\<lparr>highlightedIndex :=
                        (case change_highlightedIndex changes of Some i \<Rightarrow> i | None \<Rightarrow> 0)\<rparr>
           in if t = keyDownArrowDown \<and> \<not> isOpen r then handleOnMenuChange p r (Some True) s1
              else (s1, [])))"

text \<open>
  \<open>handleOnInputValueChange\<close>. The input value is a string, so the \<open>Array.isArray\<close> branch is
  not taken.
\<close>

definition handleOnInputValueChange ::
  "'i fms_props \<Rightarrow> 'i fms_state \<Rightarrow> string \<Rightarrow> stateChangeType \<Rightarrow> 'i fms_state \<Rightarrow> 'i fms_state \<times> 'i fms_callback list" where
  "handleOnInputValueChange p r v t s =
     (let calls = (if onInputValueChange_given p then [OnInputValueChange v] else [])
      in if t \<noteq> changeInput then (s, calls)
         else (let s1 = s\<lparr>inputValue := v\<rparr>
               in if v \<noteq> [] \<and> \<not> isOpen r
                  then (case handleOnMenuChange p r (Some True) s1 of (s2, c) \<Rightarrow> (s2, calls @ c))
                  else if v = [] \<and> isOpen r
                  then (case handleOnMenuChange p r (Some False) s1 of (s2, c) \<Rightarrow> (s2, calls @ c))
                  else (s1, calls)))"

text \<open>
  The menu as rendered: nothing when closed, else the sorted, filtered items. \<open>selectedItems\<close>
  is the selection the \<open>Selection\<close> component passes to the render function.
\<close>

definition renderMenu :: "'i fms_props \<Rightarrow> 'i fms_state \<Rightarrow> 'i list \<Rightarrow> 'i list option" where
  "renderMenu p s selectedItems =
     (if isOpen s
      then Some (sortItems p (filterItems p (items p) (inputValue s))
                   (pinnedItems (selectionFeedback_prop p) selectedItems (topItems s)))
      else None)"

text \<open>
  What happens to the component between two renders: the handlers of one render are called,
  any of them, in any order and number (none when only the props change). Then the component
  renders with its current props and the effect runs.
\<close>

datatype 'i fms_event =
  MenuChange "bool option"
  | SelectionChange "'i list"
  | StateChange "'i changes"
  | InputValueChange string stateChangeType
  | OuterClick

definition dispatch ::
  "'i fms_props \<Rightarrow> 'i fms_state \<Rightarrow> 'i fms_event \<Rightarrow> 'i fms_state \<Rightarrow> 'i fms_state \<times> 'i fms_callback list" where
  "dispatch p r ev s =
     (case ev of
        MenuChange forceIsOpen \<Rightarrow> handleOnMenuChange p r forceIsOpen s
      | SelectionChange selectedItems \<Rightarrow> handleOnChange p selectedItems s
      | StateChange changes \<Rightarrow> handleOnStateChange p r changes s
      | InputValueChange v t \<Rightarrow> handleOnInputValueChange p r v t s
      | OuterClick \<Rightarrow> handleOnOuterClick p r s)"

fun batch ::
  "'i fms_props \<Rightarrow> 'i fms_state \<Rightarrow> 'i fms_event list \<Rightarrow> 'i fms_state \<Rightarrow> 'i fms_state \<times> 'i fms_callback list" where
  "batch p r [] s = (s, [])"
| "batch p r (ev # evs) s =
     (case dispatch p r ev s of
        (s1, calls1) \<Rightarrow> (case batch p r evs s1 of (s2, calls2) \<Rightarrow> (s2, calls1 @ calls2)))"

definition commit :: "'i fms_props \<Rightarrow> 'i fms_state \<Rightarrow> 'i fms_state" where
  "commit p s = topItemsEffect (syncOpen p s)"

definition next_state :: "'i fms_state \<Rightarrow> 'i fms_props \<times> 'i fms_event list \<Rightarrow> 'i fms_state" where
  "next_state r pe = commit (fst pe) (fst (batch (fst pe) r (snd pe) r))"

text \<open>The states the component goes through, the first one first.\<close>

fun states :: "'i fms_state \<Rightarrow> ('i fms_props \<times> 'i fms_event list) list \<Rightarrow> 'i fms_state list" where
  "states s [] = [s]"
| "states s (pe # pes) = s # states (next_state s pe) pes"

text \<open>
  The selection as of the last state in which the menu was closed; \<open>d\<close> if it never was.
\<close>

definition selectionAtLastClose :: "'i list \<Rightarrow> 'i fms_state list \<Rightarrow> 'i list" where
  "selectionAtLastClose d ss =
     (case filter (\<lambda>s. \<not> isOpen s) (rev ss) of
        [] \<Rightarrow> d
      | s # rest \<Rightarrow> currentSelectedItems s)"

section \<open>ModalFooter: the validator of the \<open>secondaryButtons\<close> prop\<close>

text \<open>The values a prop can hold. A function is opaque.\<close>

datatype jsval =
  JUndefined | JNull | JBool bool | JNum jsnum | JStr string
  | JArr "jsval list" | JObj "(string \<times> jsval) list" | JFun

fun truthy_val :: "jsval \<Rightarrow> bool" where
  "truthy_val JUndefined = False"
| "truthy_val JNull = False"
| "truthy_val (JBool b) = b"
| "truthy_val (JNum n) = truthy n"
| "truthy_val (JStr s) = (s \<noteq> [])"
| "truthy_val v = True"

text \<open>
  What a call of the validator does: it returns \<open>null\<close>, after passing the listed values to
  \<open>PropTypes.checkPropTypes\<close> (which only logs warnings); or it returns an \<open>Error\<close> with a
  message; or \<open>forEach\<close> is called on a value that has none and a \<open>TypeError\<close> is thrown.
\<close>

datatype validation = ReturnsNull "jsval list" | ReturnsError string | ThrowsTypeError

text \<open>The props object: the value of each prop name, \<open>JUndefined\<close> for a prop not passed.\<close>

type_synonym modal_props = "string \<Rightarrow> jsval"

definition secondaryButtons_validator :: "modal_props \<Rightarrow> string \<Rightarrow> string \<Rightarrow> validation" where
  "secondaryButtons_validator props propName componentName =
     (if truthy_val (props ''secondaryButtons'')
      then (if (case props ''secondaryButtons'' of JArr xs \<Rightarrow> length xs \<noteq> 2 | _ \<Rightarrow> True)
            then ReturnsError (propName @ '' needs to be an array of two button config objects'')
            else (case props propName of
                    JArr ys \<Rightarrow> ReturnsNull ys
                  | _ \<Rightarrow> ThrowsTypeError))
      else ReturnsNull [])"

text \<open>An array of exactly two elements.\<close>

fun array_of_two :: "jsval \<Rightarrow> bool" where
  "array_of_two (JArr [x, y]) = True"
| "array_of_two v = False"

fun is_error :: "validation \<Rightarrow> bool" where
  "is_error (ReturnsError m) = True"
| "is_error v = False"

fun is_null :: "validation \<Rightarrow> bool" where
  "is_null (ReturnsNull xs) = True"
| "is_null v = False"

section \<open>Sketch shared styles: \<open>syncColorStyles\<close>\<close>

text \<open>
  An object is the list of its keys and values in the order of \<open>Object.keys\<close>; a key occurs
  once. \<open>colors\<close> (of the colors package) maps a swatch name to an object that maps a grade
  to a color.
\<close>

type_synonym 'c swatch = "(string \<times> 'c) list"

type_synonym 'c color_table = "(string \<times> 'c swatch) list"

text \<open>
  \<open>const { black, white, orange, yellow, ...swatches } = colors;\<close>
\<close>

definition swatches :: "'c color_table \<Rightarrow> 'c color_table" where
  "swatches colors =
     filter (\<lambda>kv. fst kv \<notin> {''black'', ''white'', ''orange'', ''yellow''}) colors"

datatype formatFor = sharedLayerStyle | colorVariable | otherFormat

fun join :: "string \<Rightarrow> string list \<Rightarrow> string" where
  "join sep [] = []"
| "join sep [x] = x"
| "join sep (x # y # ys) = x @ sep @ join sep (y # ys)"

text \<open>\<open>name.split('-').join(' ')\<close>\<close>

definition dashes_to_spaces :: "string \<Rightarrow> string" where
  "dashes_to_spaces name = map (\<lambda>c. if c = CHR ''-'' then CHR '' '' else c) name"

text \<open>\<open>xs.filter(Boolean)\<close> on strings and \<open>undefined\<close>: the non-empty strings.\<close>

definition filter_Boolean :: "string option list \<Rightarrow> string list" where
  "filter_Boolean xs = concat (map (\<lambda>x. case x of None \<Rightarrow> [] | Some s \<Rightarrow> if s = [] then [] else [s]) xs)"

definition formatColorName :: "string \<Rightarrow> string option \<Rightarrow> formatFor \<Rightarrow> string" where
  "formatColorName name grade fmt =
     (let formattedName = dashes_to_spaces name
      in case fmt of
           sharedLayerStyle \<Rightarrow> join '' / '' (filter_Boolean [Some ''color'', Some formattedName, grade])
         | colorVariable \<Rightarrow>
             join '' '' (filter_Boolean
               [Some (if grade \<noteq> None \<and> grade \<noteq> Some []
                      then formattedName @ ''/'' @ formattedName else formattedName),
                grade])
         | otherFormat \<Rightarrow> [])"

datatype type_error = TypeError

text \<open>
  \<open>syncColorStyles\<close>. \<open>formatTokenName\<close> (of the themes package) and \<open>syncColorStyle\<close> (of
  \<open>tools/sharedStyles\<close>) are parameters; \<open>syncColorStyle\<close> gets the document, the name and the
  color, which is \<open>None\<close> for \<open>undefined\<close>. Reading a grade of a color that \<open>colors\<close> does not
  have throws.
\<close>

definition syncColorStyles ::
  "'c color_table \<Rightarrow> (string \<Rightarrow> string) \<Rightarrow> ('d \<Rightarrow> string \<Rightarrow> 'c option \<Rightarrow> 's) \<Rightarrow> 'd \<Rightarrow> type_error + 's list" where
  "syncColorStyles colors formatTokenName syncColorStyle document =
     (let sharedStyles =
            concat (map (\<lambda>(swatchName, grades).
                      let name = formatTokenName swatchName
                      in map (\<lambda>(grade, color).
                                syncColorStyle document
                                  (formatColorName name (Some grade) sharedLayerStyle) (Some color))
                           grades)
                    (swatches colors))
      in case (map_of colors ''black'', map_of colors ''white'',
               map_of colors ''orange'', map_of colors ''yellow'') of
           (Some black, Some white, Some orange, Some yellow) \<Rightarrow>
             Inr (sharedStyles @
                  map (\<lambda>(name, color).
                         syncColorStyle document (formatColorName name None sharedLayerStyle) color)
                    [(''black'', map_of black ''100''), (''white'', map_of white ''0''),
                     (''orange'', map_of orange ''40''), (''yellow'', map_of yellow ''30'')])
         | _ \<Rightarrow> Inl TypeError)"

text \<open>The (swatch, grade) pairs of a table with their colors, in order.\<close>

definition swatch_entries :: "'c color_table \<Rightarrow> (string \<times> string \<times> 'c) list" where
  "swatch_entries t =
     concat (map (\<lambda>(swatchName, grades). map (\<lambda>(grade, color). (swatchName, grade, color)) grades) t)"

section \<open>ErrorBoundary\<close>

text \<open>
  The source of the \<open>ErrorBoundary\<close> component is not among the sources; its name in the
  list of exports and its visual test are. The subtree of a boundary either renders to some
  markup or throws. The boundary keeps whether it has caught an error.
\<close>

datatype 'ui rendering = Rendered 'ui | Throws

record boundary =
  hasError :: bool

text \<open>
  Modelled from the spec: the \<open>render\<close> of \<open>ErrorBoundary\<close> together with its catching of a
  render-time exception, both missing from the sources. The spec says that render-time
  exceptions are caught by the error boundary, which renders its fallback, and that there is
  no retry and no recovery beyond that: once an error is caught, the fallback is what is
  rendered.
\<close>

definition render_boundary :: "'ui \<Rightarrow> boundary \<Rightarrow> 'ui rendering \<Rightarrow> boundary \<times> 'ui" where
  "render_boundary fallback b children =
     (if hasError b then (b, fallback)
      else (case children of
              Rendered ui \<Rightarrow> (b, ui)
            | Throws \<Rightarrow> (b\<lparr>hasError := True\<rparr>, fallback)))"

text \<open>
  Modelled from the spec: a sequence of renders of the boundary, each with what the subtree
  would do; the result is the markup shown after each.
\<close>

fun renders :: "'ui \<Rightarrow> boundary \<Rightarrow> 'ui rendering list \<Rightarrow> 'ui list" where
  "renders fallback b [] = []"
| "renders fallback b (c # cs) =
     (case render_boundary fallback b c of (b', ui) \<Rightarrow> ui # renders fallback b' cs)"

section \<open>Predicates of the statements\<close>

fun is_Fin :: "jsnum \<Rightarrow> bool" where
  "is_Fin (Fin a) = True"
| "is_Fin x = False"





text \<open>
  What the statements on the thumb position use of the rounding of doubles: a rounded result
  is a double or an infinity, never \<open>NaN\<close>; and the rounding of a real between 0 and 100 lies
  between 0 and 100 (rounding to the nearest double is monotone, and 0 and 100 are doubles).
\<close>

definition rounds :: "rounding \<Rightarrow> bool" where
  "rounds fl = ((\<forall>x. fl x \<noteq> NaN) \<and> (\<forall>x. 0 \<le> x \<and> x \<le> 100 \<longrightarrow> in_range 0 100 (fl x)))"

section \<open>Sample inputs\<close>

text \<open>
  A Slider from 0 to 100 with step 1, 200 pixels wide, at 50. The conversions of the sample
  host agree with the language on the strings and numbers used below. The sample rounding
  returns the exact result: the operations of the samples below are exact in doubles (their
  operands and results are small multiples of powers of two, infinities or \<open>NaN\<close>).
\<close>

definition sample_double :: rounding where
  "sample_double x = Fin x"

definition sample_parse :: "string \<Rightarrow> jsnum" where
  "sample_parse s = (if s = ''150'' then Fin 150 else if s = ''50'' then Fin 50 else NaN)"

definition sample_show :: "jsnum \<Rightarrow> string" where
  "sample_show n = (if n = Fin 1 then ''1'' else if n = Fin (- 1) then ''-1'' else ''NaN'')"

definition sample_env :: env where
  "sample_env = \<lparr>boundingRect = Some \<lparr>rect_left = Fin 0, rect_right = Fin 200\<rparr>,
                  double = sample_double, StringToNumber = sample_parse, NumberToString = sample_show,
                  parseFloat = sample_parse\<rparr>"

definition sample_props :: props where
  "sample_props = \<lparr>min_prop = Fin 0, max_prop = Fin 100, step_prop = Some (Fin 1),
                    stepMultiplier_prop = Some (Fin 4), disabled_prop = False,
                    readOnly_prop = False, twoHandles_prop = False,
                    value_prop = Some (Fin 50), valueLower_prop = None, valueUpper_prop = None,
                    onChange_prop = True, onRelease_prop = True\<rparr>"

definition sample_state :: state where
  "sample_state = \<lparr>value_state = Num (Fin 50), valueLower_state = Undefined,
                    valueUpper_state = Undefined, left_state = Fin 50, leftLower_state = Fin 0,
                    leftUpper_state = Fin 0, needsOnRelease = False, isValid = True,
                    activeHandle = None\<rparr>"

text \<open>A two-handle Slider from -10 to 10, both handles at 0.\<close>

definition two_handle_props :: props where
  "two_handle_props = \<lparr>min_prop = Fin (- 10), max_prop = Fin 10, step_prop = Some (Fin 1),
                    stepMultiplier_prop = Some (Fin 4), disabled_prop = False,
                    readOnly_prop = False, twoHandles_prop = True,
                    value_prop = None, valueLower_prop = Some (Fin 0), valueUpper_prop = Some (Fin 0),
                    onChange_prop = True, onRelease_prop = True\<rparr>"

definition two_handle_state :: state where
  "two_handle_state = \<lparr>value_state = Undefined, valueLower_state = Num (Fin 0),
                    valueUpper_state = Num (Fin 0), left_state = Fin 0, leftLower_state = Fin 50,
                    leftUpper_state = Fin 50, needsOnRelease = False, isValid = True,
                    activeHandle = Some LOWER\<rparr>"

text \<open>
  A FilterableMultiSelect over the items 0 to 3 with item 1 selected at first. Its sort puts
  the pinned items first; its filter keeps every item.
\<close>

definition sample_sortItems :: "nat list \<Rightarrow> nat list \<Rightarrow> nat list" where
  "sample_sortItems xs pins = filter (\<lambda>x. x \<in> set pins) xs @ filter (\<lambda>x. x \<notin> set pins) xs"

definition sample_filterItems :: "nat list \<Rightarrow> string \<Rightarrow> nat list" where
  "sample_filterItems xs v = xs"

definition sample_select :: "nat fms_props" where
  "sample_select = \<lparr>open_prop = False, initialSelectedItems = [1], items = [0, 1, 2, 3],
                     selectionFeedback_prop = TopAfterReopen, sortItems = sample_sortItems,
                     filterItems = sample_filterItems, onChange_given = True,
                     onMenuChange_given = True, onInputValueChange_given = False\<rparr>"

text \<open>
  Item 2 is selected while the menu is closed; then, between two renders, the menu is opened
  and item 3 is selected.
\<close>

definition sample_events :: "(nat fms_props \<times> nat fms_event list) list" where
  "sample_events = [(sample_select, [SelectionChange [1, 2]]),
                    (sample_select, [MenuChange (Some True), SelectionChange [1, 2, 3]])]"

definition sample_open :: "nat fms_state" where
  "sample_open = \<lparr>isOpen = True, prevOpen = False, inputValue = ''a'', topItems = [1],
                   highlightedIndex = 3, currentSelectedItems = [1]\<rparr>"

definition sample_escape :: "nat changes" where
  "sample_escape = \<lparr>change_type = keyDownEscape, change_highlightedIndex = None,
                     change_selectedItems = [1], change_selectedItem = 1\<rparr>"

text \<open>A color table with two swatches besides the four single colors.\<close>

definition sample_colors :: "string color_table" where
  "sample_colors =
     [(''black'', [(''100'', ''#000000'')]),
      (''blue'', [(''10'', ''#edf5ff''), (''20'', ''#d0e2ff'')]),
      (''cool-gray'', [(''10'', ''#f2f4f8'')]),
      (''orange'', [(''40'', ''#ff832b'')]),
      (''white'', [(''0'', ''#ffffff'')]),
      (''yellow'', [(''30'', ''#f1c21b'')])]"

definition sample_formatTokenName :: "string \<Rightarrow> string" where
  "sample_formatTokenName swatchName = swatchName"

definition sample_syncColorStyle :: "unit \<Rightarrow> string \<Rightarrow> string option \<Rightarrow> string \<times> string option" where
  "sample_syncColorStyle document name color = (name, color)"

section \<open>Facts about numbers\<close>

lemma is_Fin_E: "is_Fin x \<Longrightarrow> \<exists>a. x = Fin a"
  by (cases x) auto


text \<open>The thumb position of the raw path: clamped to 0..1, then times 100 and rounded.\<close>

lemma raw_left_clamped:
  assumes "rounds fl"
  shows "js_mul fl (Math_min (Fin 1) (Math_max (Fin 0) lp)) (Fin 100) = NaN \<or>
         in_range 0 100 (js_mul fl (Math_min (Fin 1) (Math_max (Fin 0) lp)) (Fin 100))"
proof (cases lp)
  case (Fin a)
  have "0 \<le> min 1 (max 0 a) * 100 \<and> min 1 (max 0 a) * 100 \<le> 100" by auto
  with assms have "in_range 0 100 (fl (min 1 (max 0 a) * 100))"
    unfolding rounds_def by blast
  moreover have "Math_min (Fin 1) (Math_max (Fin 0) (Fin a)) = Fin (min 1 (max 0 a))"
    by (auto simp: Math_min_def Math_max_def)
  ultimately show ?thesis by (simp add: Fin)
next
  case PosInf
  from assms have "in_range 0 100 (fl 100)" unfolding rounds_def by auto
  then show ?thesis by (simp add: PosInf Math_min_def Math_max_def)
next
  case NegInf
  from assms have "in_range 0 100 (fl 0)" unfolding rounds_def by auto
  then show ?thesis by (simp add: NegInf Math_min_def Math_max_def)
next
  case NaN
  then show ?thesis by (simp add: Math_min_def Math_max_def)
qed

lemma raw_left_in_range:
  assumes "rounds fl" "lp \<noteq> NaN"
  shows "in_range 0 100 (js_mul fl (Math_min (Fin 1) (Math_max (Fin 0) lp)) (Fin 100))"
proof -
  have "Math_min (Fin 1) (Math_max (Fin 0) lp) \<noteq> NaN"
    using assms(2) by (cases lp) (auto simp: Math_min_def Math_max_def)
  moreover have "\<exists>c. Math_min (Fin 1) (Math_max (Fin 0) lp) = Fin c"
    using assms(2) by (cases lp) (auto simp: Math_min_def Math_max_def)
  ultimately obtain c where c: "Math_min (Fin 1) (Math_max (Fin 0) lp) = Fin c" by blast
  have "fl (c * 100) \<noteq> NaN" using assms(1) unfolding rounds_def by blast
  with raw_left_clamped[OF assms(1), of lp] show ?thesis by (simp add: c)
qed

text \<open>A finite difference has finite operands.\<close>

lemma js_sub_Fin_D: "is_Fin (js_sub fl x y) \<Longrightarrow> is_Fin x \<and> is_Fin y"
  by (cases x; cases y) (simp_all add: js_sub_def)

text \<open>No \<open>NaN\<close> from a number minus a finite number, divided by a finite number other than 0.\<close>

lemma js_div_offset_not_NaN:
  assumes "\<forall>x. fl x \<noteq> NaN" "n \<noteq> NaN" "r \<noteq> 0"
  shows "js_div fl (js_sub fl n (Fin c)) (Fin r) \<noteq> NaN"
proof (cases n)
  case (Fin a)
  show ?thesis
  proof (cases "fl (a - c)")
    case NaN
    with assms(1) show ?thesis by blast
  next
    case (Fin d)
    with assms(1,3) \<open>n = Fin a\<close> show ?thesis by (simp add: js_sub_def)
  qed (use assms(3) \<open>n = Fin a\<close> in \<open>simp_all add: js_sub_def\<close>)
qed (use assms(2,3) in \<open>simp_all add: js_sub_def\<close>)

section \<open>Slider: the value and the thumb position\<close>

lemmas sample_defs = sample_env_def sample_props_def sample_state_def sample_parse_def
  sample_show_def sample_double_def two_handle_props_def two_handle_state_def

lemmas slider_defs = onChange_def onDrag_def onKeyDown_def calcValue_def calcLeftPercent_def
  calcSteppedValuePercent_def calcValueForDelta_def setStateForHandle_def clamp_def Math_min_def
  Math_max_def step_or_default_def stepMultiplier_or_default_def defaultProps_step_def
  defaultProps_stepMultiplier_def js_sub_def js_le_def js_gt_def js_eq_def truthy_def
  truthy_sval_def to_number_def sval_lt_def sval_gt_def isNaN_def of_prop_def

lemma of_prop_number: "of_prop v = Undefined \<or> (\<exists>n. of_prop v = Num n)"
  by (cases v) (simp_all add: of_prop_def)



lemma calcValue_raw_value: "value_of (calcValue e p clientX v True) = v"
  by (simp add: calcValue_def Let_def)









text \<open>
  C8 fails on the code at the value 0. The guard of \<open>setStateForHandle\<close> tests the other
  handle's value for truthiness before it compares, and 0 is falsy: with the upper handle at
  0 the lower handle is stored above it, and with the lower handle at 0 the upper handle is
  stored below it. On the two-handle sample (from -10 to 10, both handles at 0), the lower
  handle goes to 5 and the upper stays at 0; the upper handle goes to -5 and the lower stays
  at 0; a drag of the lower handle to the pixel 150 of 200 stores 5 the same way.
\<close>

theorem handle_passes_counterpart_at_zero:
  "valueLower_state two_handle_state = Num (Fin 0) \<and>
   valueUpper_state two_handle_state = Num (Fin 0) \<and>
   valueLower_state (setStateForHandle sample_env LOWER \<lparr>value_of = Num (Fin 5), left_of = Fin 75\<rparr>
      two_handle_state) = Num (Fin 5) \<and>
   valueUpper_state (setStateForHandle sample_env LOWER \<lparr>value_of = Num (Fin 5), left_of = Fin 75\<rparr>
      two_handle_state) = Num (Fin 0) \<and>
   valueUpper_state (setStateForHandle sample_env UPPER \<lparr>value_of = Num (Fin (- 5)), left_of = Fin 25\<rparr>
      two_handle_state) = Num (Fin (- 5)) \<and>
   valueLower_state (setStateForHandle sample_env UPPER \<lparr>value_of = Num (Fin (- 5)), left_of = Fin 25\<rparr>
      two_handle_state) = Num (Fin 0) \<and>
   valueLower_state (onDrag sample_env two_handle_props (Some (MouseEvent (Fin 150))) (Some LOWER)
      two_handle_state) = Num (Fin 5)"
  by (simp add: sample_defs slider_defs Let_def)

text \<open>Away from 0 the guard does what its comment says: the handles stay in order.\<close>

lemma setStateForHandle_ordered:
  assumes "valueLower_state st = Num (Fin l)" "valueUpper_state st = Num (Fin u)" "l \<le> u"
    and "value_of vl = Num (Fin a)"
    and "if h = LOWER then u \<noteq> 0 else l \<noteq> 0"
  shows "\<exists>l' u'. valueLower_state (setStateForHandle e h vl st) = Num (Fin l') \<and>
           valueUpper_state (setStateForHandle e h vl st) = Num (Fin u') \<and> l' \<le> u'"
  using assms
  by (cases h)
     (auto simp: setStateForHandle_def truthy_sval_def truthy_def sval_gt_def sval_lt_def to_number_def)

text \<open>
  C9, as the claim puts it, fails for a disabled Slider (and a read-only one): \<open>onChange\<close>
  returns before it reads the event, and nothing is stored.
\<close>

theorem disabled_onChange_stores_nothing:
  "isNaN (parseFloat sample_env ''abc'') \<and>
   onChange sample_env (sample_props\<lparr>disabled_prop := True\<rparr>)
     (Some \<lparr>target_value = Some ''abc'', handlePosition = None\<rparr>) sample_state = sample_state \<and>
   value_state sample_state \<noteq> Str ''abc''"
  by (simp add: sample_defs onChange_def isNaN_def)

text \<open>
  C9, amended: for a Slider that is neither disabled nor read-only, if the text of the input
  does not parse as a number, \<open>onChange\<close> stores the raw string in \<open>valueLower\<close> (two handles,
  lower input), in \<open>valueUpper\<close> (two handles, upper input) or in \<open>value\<close> (one handle), and
  changes nothing else: no \<open>calcValue\<close>, no clamping, no stepping.
\<close>

theorem onChange_unparsable_stores_raw:
  assumes "\<not> disabled_prop p" "\<not> readOnly_prop p" "isNaN (parseFloat e s)"
  shows "onChange e p (Some \<lparr>target_value = Some s, handlePosition = hp\<rparr>) st =
     (if twoHandles_prop p \<and> hp \<noteq> Some UPPER then st\<lparr>valueLower_state := Str s\<rparr>
      else if twoHandles_prop p then st\<lparr>valueUpper_state := Str s\<rparr>
      else st\<lparr>value_state := Str s\<rparr>)"
proof (cases hp)
  case None
  then show ?thesis using assms by (simp add: onChange_def Let_def)
next
  case (Some h)
  then show ?thesis using assms by (cases h) (simp_all add: onChange_def Let_def)
qed

theorem onChange_unparsable_stores_raw_witness:
  "isNaN (parseFloat sample_env ''abc'') \<and>
   onChange sample_env sample_props (Some \<lparr>target_value = Some ''abc'', handlePosition = None\<rparr>)
     sample_state = sample_state\<lparr>value_state := Str ''abc''\<rparr> \<and>
   onChange sample_env two_handle_props (Some \<lparr>target_value = Some ''abc'', handlePosition = Some UPPER\<rparr>)
     two_handle_state = two_handle_state\<lparr>valueUpper_state := Str ''abc''\<rparr>"
proof -
  have h: "\<not> disabled_prop sample_props" "\<not> readOnly_prop sample_props"
    "isNaN (parseFloat sample_env ''abc'')"
    "\<not> disabled_prop two_handle_props" "\<not> readOnly_prop two_handle_props"
    by (simp_all add: sample_defs isNaN_def)
  from onChange_unparsable_stores_raw[OF h(1,2,3), of None sample_state]
    onChange_unparsable_stores_raw[OF h(4,5,3), of "Some UPPER" two_handle_state] h(3)
  show ?thesis by (simp add: sample_props_def two_handle_props_def)
qed

text \<open>
  When \<open>max - min\<close> is finite, the fraction the raw path computes from the value is never
  \<open>NaN\<close>.
\<close>

lemma calcLeftPercent_Fin_not_NaN:
  assumes "\<forall>x. double e x \<noteq> NaN" "min_prop p = Fin lo"
  shows "calcLeftPercent e p None (of_prop v) (Fin r) \<noteq> NaN"
proof (cases v)
  case None
  then show ?thesis
    by (simp add: calcLeftPercent_def Let_def of_prop_def truthy_sval_def)
next
  case (Some n)
  show ?thesis
  proof (cases "truthy n \<and> r \<noteq> 0")
    case True
    then have "js_div (double e) (js_sub (double e) n (Fin lo)) (Fin r) \<noteq> NaN"
      by (intro js_div_offset_not_NaN[OF assms(1)]) (simp_all add: truthy_def)
    with True show ?thesis
      by (simp add: calcLeftPercent_def Let_def of_prop_def truthy_sval_def truthy_def
          js_eq_def to_number_def Some assms(2))
  next
    case False
    then show ?thesis
      by (auto simp: calcLeftPercent_def Let_def of_prop_def truthy_sval_def truthy_def
          js_eq_def Some)
  qed
qed

lemma calcLeftPercent_raw_not_NaN:
  assumes "\<forall>x. double e x \<noteq> NaN" "is_Fin (js_sub (double e) (max_prop p) (min_prop p))"
  shows "calcLeftPercent e p None (of_prop v) (js_sub (double e) (max_prop p) (min_prop p)) \<noteq> NaN"
proof -
  from assms(2) obtain r where r: "js_sub (double e) (max_prop p) (min_prop p) = Fin r"
    using is_Fin_E by blast
  from js_sub_Fin_D[OF assms(2)] obtain lo where lo: "min_prop p = Fin lo"
    using is_Fin_E by blast
  show ?thesis
    unfolding r by (rule calcLeftPercent_Fin_not_NaN[OF assms(1) lo])
qed

lemma calcValue_raw:
  assumes "rounds (double e)"
  shows "value_of (calcValue e p None (of_prop v) True) = of_prop v \<and>
         (left_of (calcValue e p None (of_prop v) True) = NaN \<or>
          in_range 0 100 (left_of (calcValue e p None (of_prop v) True))) \<and>
         (is_Fin (js_sub (double e) (max_prop p) (min_prop p)) \<longrightarrow>
          in_range 0 100 (left_of (calcValue e p None (of_prop v) True)))"
proof -
  let ?lp = "calcLeftPercent e p None (of_prop v) (js_sub (double e) (max_prop p) (min_prop p))"
  have l: "left_of (calcValue e p None (of_prop v) True) =
      js_mul (double e) (Math_min (Fin 1) (Math_max (Fin 0) ?lp)) (Fin 100)"
    by (simp add: calcValue_def Let_def)
  have n: "\<forall>x. double e x \<noteq> NaN" using assms unfolding rounds_def by blast
  have a: "left_of (calcValue e p None (of_prop v) True) = NaN \<or>
          in_range 0 100 (left_of (calcValue e p None (of_prop v) True))"
    unfolding l by (rule raw_left_clamped[OF assms])
  have b: "is_Fin (js_sub (double e) (max_prop p) (min_prop p)) \<longrightarrow>
          in_range 0 100 (left_of (calcValue e p None (of_prop v) True))"
    unfolding l using raw_left_in_range[OF assms calcLeftPercent_raw_not_NaN[OF n]] by blast
  from a b show ?thesis by (simp add: calcValue_raw_value)
qed

text \<open>
  C10, as the claim puts it, fails when a bound is infinite: with \<open>max\<close> and \<open>value\<close> changed
  to \<open>Infinity\<close> on the sample Slider, \<open>(value - min) / range\<close> is
  \<open>Infinity / Infinity\<close>, and the thumb position that \<open>componentDidUpdate\<close> stores is \<open>NaN\<close>.
\<close>

theorem infinite_max_gives_NaN_left:
  "\<not> props_unchanged sample_props (sample_props\<lparr>max_prop := PosInf, value_prop := Some PosInf\<rparr>) \<and>
   left_state (fst (componentDidUpdate sample_env sample_props sample_state
      (sample_props\<lparr>max_prop := PosInf, value_prop := Some PosInf\<rparr>) sample_state)) = NaN \<and>
   \<not> in_range 0 100 NaN"
  by (simp add: sample_defs props_unchanged_def componentDidUpdate_def slider_defs Let_def)

text \<open>
  C10, amended: when one of the props \<open>value\<close>, \<open>valueLower\<close>, \<open>valueUpper\<close>, \<open>min\<close>, \<open>max\<close>
  differs from the previous render, \<open>componentDidUpdate\<close> sets the state from \<open>calcValue\<close>
  with \<open>useRawValue = true\<close>: the stored value is the \<open>value\<close> prop as given (no clamping to
  \<open>min\<close> and \<open>max\<close>), and the thumb position \<open>left\<close> is \<open>NaN\<close> or lies between 0 and 100; it
  lies between 0 and 100 whenever \<open>max - min\<close> is finite.
\<close>

theorem componentDidUpdate_resync:
  assumes "\<not> props_unchanged prevProps p" "rounds (double e)"
  shows "value_state (fst (componentDidUpdate e prevProps prevState p st)) = of_prop (value_prop p) \<and>
         left_state (fst (componentDidUpdate e prevProps prevState p st)) =
           left_of (calcValue e p None (of_prop (value_prop p)) True) \<and>
         (left_state (fst (componentDidUpdate e prevProps prevState p st)) = NaN \<or>
          in_range 0 100 (left_state (fst (componentDidUpdate e prevProps prevState p st)))) \<and>
         (is_Fin (js_sub (double e) (max_prop p) (min_prop p)) \<longrightarrow>
          in_range 0 100 (left_state (fst (componentDidUpdate e prevProps prevState p st))))"
proof -
  have "value_state (fst (componentDidUpdate e prevProps prevState p st)) =
          value_of (calcValue e p None (of_prop (value_prop p)) True)"
    "left_state (fst (componentDidUpdate e prevProps prevState p st)) =
          left_of (calcValue e p None (of_prop (value_prop p)) True)"
    using assms(1) by (simp_all add: componentDidUpdate_def Let_def)
  with calcValue_raw[OF assms(2), of p "value_prop p"] show ?thesis by simp
qed

text \<open>On the sample Slider, the \<open>value\<close> prop changes from 50 to 150: 150 is stored, the thumb is at 100.\<close>

theorem componentDidUpdate_resync_witness:
  "\<not> props_unchanged sample_props (sample_props\<lparr>value_prop := Some (Fin 150)\<rparr>) \<and>
   rounds (double sample_env) \<and>
   is_Fin (js_sub (double sample_env) (max_prop (sample_props\<lparr>value_prop := Some (Fin 150)\<rparr>))
      (min_prop (sample_props\<lparr>value_prop := Some (Fin 150)\<rparr>))) \<and>
   value_state (fst (componentDidUpdate sample_env sample_props sample_state
      (sample_props\<lparr>value_prop := Some (Fin 150)\<rparr>) sample_state)) = Num (Fin 150) \<and>
   left_state (fst (componentDidUpdate sample_env sample_props sample_state
      (sample_props\<lparr>value_prop := Some (Fin 150)\<rparr>) sample_state)) = Fin 100 \<and>
   in_range 0 100 (left_state (fst (componentDidUpdate sample_env sample_props sample_state
      (sample_props\<lparr>value_prop := Some (Fin 150)\<rparr>) sample_state)))"
proof -
  have h: "\<not> props_unchanged sample_props (sample_props\<lparr>value_prop := Some (Fin 150)\<rparr>)"
    "rounds (double sample_env)"
    by (simp_all add: sample_defs props_unchanged_def of_prop_def js_eq_def rounds_def)
  have f: "is_Fin (js_sub (double sample_env) (max_prop (sample_props\<lparr>value_prop := Some (Fin 150)\<rparr>))
      (min_prop (sample_props\<lparr>value_prop := Some (Fin 150)\<rparr>)))"
    by (simp add: sample_defs js_sub_def)
  have l: "left_of (calcValue sample_env (sample_props\<lparr>value_prop := Some (Fin 150)\<rparr>) None
             (of_prop (Some (Fin 150))) True) = Fin 100"
    by (simp add: sample_defs slider_defs Let_def)
  from componentDidUpdate_resync[OF h, where prevState = sample_state and st = sample_state] h f l
  show ?thesis by (simp add: of_prop_def)
qed

section \<open>FilterableMultiSelect: the menu and the pinned items\<close>

lemmas select_defs = sample_select_def sample_events_def sample_open_def sample_escape_def
  sample_sortItems_def sample_filterItems_def

text \<open>No handler touches \<open>topItems\<close>; only the effect sets it.\<close>

lemma handleOnMenuChange_topItems:
  "topItems (fst (handleOnMenuChange p r f s)) = topItems s"
  by (simp add: handleOnMenuChange_def Let_def)

lemma handleOnStateChange_topItems:
  "topItems (fst (handleOnStateChange p r c s)) = topItems s"
  by (cases "change_type c")
     (simp_all add: handleOnStateChange_def handleOnMenuChange_def Let_def split: prod.splits)

lemma handleOnInputValueChange_topItems:
  "topItems (fst (handleOnInputValueChange p r v t s)) = topItems s"
  by (simp add: handleOnInputValueChange_def handleOnMenuChange_def Let_def split: prod.splits)

lemma dispatch_topItems: "topItems (fst (dispatch p r ev s)) = topItems s"
  by (cases ev)
     (simp_all add: dispatch_def handleOnMenuChange_topItems handleOnStateChange_topItems
        handleOnInputValueChange_topItems handleOnChange_def handleOnOuterClick_def)

lemma fst_batch_Cons:
  "fst (batch p r (ev # evs) s) = fst (batch p r evs (fst (dispatch p r ev s)))"
  by (cases "dispatch p r ev s"; cases "batch p r evs (fst (dispatch p r ev s))") simp

lemma batch_topItems: "topItems (fst (batch p r evs s)) = topItems s"
proof (induction evs arbitrary: s)
  case Nil
  show ?case by simp
next
  case (Cons ev evs)
  show ?case
    unfolding fst_batch_Cons by (simp add: Cons.IH dispatch_topItems)
qed

lemma commit_topItems:
  "topItems (commit p s) =
     (if isOpen (commit p s) then topItems s else currentSelectedItems (commit p s))"
  by (simp add: commit_def topItemsEffect_def syncOpen_def)

lemma next_state_topItems:
  "topItems (next_state r pe) =
     (if isOpen (next_state r pe) then topItems r else currentSelectedItems (next_state r pe))"
  unfolding next_state_def by (subst commit_topItems) (simp add: batch_topItems)

lemma selectionAtLastClose_Cons:
  "selectionAtLastClose d (s # ss) =
   selectionAtLastClose (if isOpen s then d else currentSelectedItems s) ss"
  by (simp add: selectionAtLastClose_def split: list.splits)

lemma states_not_Nil: "states s pes \<noteq> []"
  by (cases pes) simp_all

text \<open>
  Along any run, \<open>topItems\<close> is the selection of the last closed state. The induction is on
  the events, with the state and the selection held so far generalised.
\<close>

lemma topItems_last_states:
  "topItems s = (if isOpen s then d else currentSelectedItems s) \<Longrightarrow>
   topItems (last (states s pes)) = selectionAtLastClose d (states s pes)"
proof (induction pes arbitrary: s d)
  case Nil
  then show ?case by (simp add: selectionAtLastClose_def)
next
  case (Cons pe pes)
  have "topItems (last (states (next_state s pe) pes)) =
      selectionAtLastClose (topItems s) (states (next_state s pe) pes)"
    by (rule Cons.IH) (rule next_state_topItems)
  moreover have "selectionAtLastClose d (s # states (next_state s pe) pes) =
      selectionAtLastClose (topItems s) (states (next_state s pe) pes)"
    using Cons.prems by (simp add: selectionAtLastClose_Cons)
  ultimately show ?case by (simp add: states_not_Nil)
qed

lemma closed_last_states:
  "(isOpen s \<or> topItems s = currentSelectedItems s) \<Longrightarrow>
   isOpen (last (states s pes)) \<or>
   topItems (last (states s pes)) = currentSelectedItems (last (states s pes))"
proof (induction pes arbitrary: s)
  case Nil
  then show ?case by simp
next
  case (Cons pe pes)
  have "isOpen (next_state s pe) \<or> topItems (next_state s pe) = currentSelectedItems (next_state s pe)"
    by (simp add: next_state_topItems)
  from Cons.IH[OF this] show ?case by (simp add: states_not_Nil)
qed

text \<open>
  C2: with \<open>selectionFeedback = 'top-after-reopen'\<close>: the effect sets \<open>topItems\<close> to the
  current selection whenever the menu is closed and leaves it alone while the menu is open;
  after any sequence of events from the initial state, \<open>topItems\<close> is the selection as of the
  last state with the menu closed, and equals the current selection if the menu is closed
  now; and the list the open menu passes to \<open>sortItems\<close> as \<open>selectedItems\<close> is that
  \<open>topItems\<close>, whatever is selected now.
\<close>

theorem topItems_after_reopen:
  assumes "selectionFeedback_prop p = TopAfterReopen"
  shows "topItems (topItemsEffect s) = (if isOpen s then topItems s else currentSelectedItems s) \<and>
     topItems (last (states (initialState p0) pes)) =
       selectionAtLastClose (initialSelectedItems p0) (states (initialState p0) pes) \<and>
     (isOpen (last (states (initialState p0) pes)) \<or>
      topItems (last (states (initialState p0) pes)) =
        currentSelectedItems (last (states (initialState p0) pes))) \<and>
     renderMenu p (last (states (initialState p0) pes)) selectedItems =
       (if isOpen (last (states (initialState p0) pes))
        then Some (sortItems p
                    (filterItems p (items p) (inputValue (last (states (initialState p0) pes))))
                    (selectionAtLastClose (initialSelectedItems p0) (states (initialState p0) pes)))
        else None)"
proof -
  let ?s = "last (states (initialState p0) pes)"
  have a: "topItems (topItemsEffect s) = (if isOpen s then topItems s else currentSelectedItems s)"
    by (simp add: topItemsEffect_def)
  have b: "topItems ?s = selectionAtLastClose (initialSelectedItems p0) (states (initialState p0) pes)"
    by (rule topItems_last_states) (simp add: initialState_def)
  have c: "isOpen ?s \<or> topItems ?s = currentSelectedItems ?s"
    by (rule closed_last_states) (simp add: initialState_def)
  have d: "renderMenu p ?s selectedItems =
       (if isOpen ?s
        then Some (sortItems p (filterItems p (items p) (inputValue ?s)) (topItems ?s))
        else None)"
    by (simp add: renderMenu_def pinnedItems_def assms)
  from a b c d show ?thesis by simp
qed

text \<open>
  On the sample: item 2 is selected with the menu closed, the menu opens, item 3 is
  selected. The selection is 1, 2, 3; the pinned items are still 1, 2, and the menu shows
  them first.
\<close>

theorem topItems_after_reopen_witness:
  "selectionFeedback_prop sample_select = TopAfterReopen \<and>
   isOpen (last (states (initialState sample_select) sample_events)) \<and>
   currentSelectedItems (last (states (initialState sample_select) sample_events)) = [1, 2, 3] \<and>
   topItems (last (states (initialState sample_select) sample_events)) = [1, 2] \<and>
   renderMenu sample_select (last (states (initialState sample_select) sample_events)) [1, 2, 3] =
     Some [1, 2, 0, 3]"
proof -
  let ?s = "last (states (initialState sample_select) sample_events)"
  have h: "selectionFeedback_prop sample_select = TopAfterReopen"
    by (simp add: sample_select_def)
  have l: "?s = \<lparr>isOpen = True, prevOpen = False, inputValue = [], topItems = [1, 2],
       highlightedIndex = 0, currentSelectedItems = [1, 2, 3]\<rparr>"
    by (simp add: select_defs initialState_def next_state_def dispatch_def commit_def syncOpen_def
        topItemsEffect_def handleOnChange_def handleOnMenuChange_def Let_def)
  note t = topItems_after_reopen[OF h, where s = sample_open and ?p0.0 = sample_select
      and pes = sample_events and selectedItems = "[1, 2, 3]"]
  have sel: "selectionAtLastClose (initialSelectedItems sample_select)
      (states (initialState sample_select) sample_events) = topItems ?s"
    by (rule t[THEN conjunct2, THEN conjunct1, symmetric])
  have "renderMenu sample_select ?s [1, 2, 3] =
      (if isOpen ?s
       then Some (sortItems sample_select (filterItems sample_select (items sample_select) (inputValue ?s))
                    (topItems ?s))
       else None)"
    using t[THEN conjunct2, THEN conjunct2, THEN conjunct2] unfolding sel .
  then have "renderMenu sample_select ?s [1, 2, 3] = Some [1, 2, 0, 3]"
    unfolding l by (simp add: select_defs)
  then show ?thesis
    using h by (simp add: l)
qed

text \<open>
  C3: after \<open>handleOnMenuChange(forceIsOpen)\<close> the menu is open as \<open>forceIsOpen\<close> says, or,
  when \<open>forceIsOpen\<close> is \<open>null\<close> or \<open>undefined\<close>, the opposite of what it was at the render;
  and \<open>onMenuChange\<close>, when it was passed, is called once, with that new state.
\<close>

theorem handleOnMenuChange_next:
  "isOpen (fst (handleOnMenuChange p r forceIsOpen s)) =
     (case forceIsOpen of Some b \<Rightarrow> b | None \<Rightarrow> \<not> isOpen r) \<and>
   snd (handleOnMenuChange p r forceIsOpen s) =
     (if onMenuChange_given p
      then [OnMenuChange (case forceIsOpen of Some b \<Rightarrow> b | None \<Rightarrow> \<not> isOpen r)]
      else [])"
  by (simp add: handleOnMenuChange_def Let_def)

text \<open>
  C4: a state change of type \<open>keyDownEscape\<close> leaves the menu closed and the highlighted
  index at 0.
\<close>

theorem keyDownEscape_closes:
  assumes "change_type changes = keyDownEscape"
  shows "\<not> isOpen (fst (handleOnStateChange p r changes s)) \<and>
         highlightedIndex (fst (handleOnStateChange p r changes s)) = 0"
  using assms by (simp add: handleOnStateChange_def handleOnMenuChange_def Let_def)

text \<open>On the sample: Escape with the menu open and the fourth item highlighted.\<close>

theorem keyDownEscape_closes_witness:
  "isOpen sample_open \<and> highlightedIndex sample_open = 3 \<and>
   change_type sample_escape = keyDownEscape \<and>
   \<not> isOpen (fst (handleOnStateChange sample_select sample_open sample_escape sample_open)) \<and>
   highlightedIndex (fst (handleOnStateChange sample_select sample_open sample_escape sample_open)) = 0 \<and>
   snd (handleOnStateChange sample_select sample_open sample_escape sample_open) = [OnMenuChange False]"
proof -
  have h: "change_type sample_escape = keyDownEscape"
    by (simp add: sample_escape_def)
  have c: "snd (handleOnStateChange sample_select sample_open sample_escape sample_open) =
      [OnMenuChange False]"
    by (simp add: handleOnStateChange_def handleOnMenuChange_def Let_def select_defs)
  from keyDownEscape_closes[OF h, of sample_select sample_open sample_open] h c
  show ?thesis by (simp add: sample_open_def)
qed

section \<open>ModalFooter: when the validator returns an error\<close>

lemma array_of_two_iff: "array_of_two v = (\<exists>xs. v = JArr xs \<and> length xs = 2)"
  by (cases v rule: array_of_two.cases) auto

text \<open>
  C5: the validator of \<open>secondaryButtons\<close> returns an \<open>Error\<close> exactly when the prop is
  truthy and is not an array of two elements; in every other case it returns \<open>null\<close>.
\<close>

theorem secondaryButtons_validator_result:
  "is_error (secondaryButtons_validator props ''secondaryButtons'' componentName) =
     (truthy_val (props ''secondaryButtons'') \<and> \<not> array_of_two (props ''secondaryButtons'')) \<and>
   is_null (secondaryButtons_validator props ''secondaryButtons'' componentName) =
     (\<not> is_error (secondaryButtons_validator props ''secondaryButtons'' componentName))"
proof (cases "props ''secondaryButtons''")
  case (JArr xs)
  then show ?thesis
    by (auto simp: secondaryButtons_validator_def array_of_two_iff)
qed (simp_all add: secondaryButtons_validator_def)

section \<open>Sketch shared styles: what \<open>syncColorStyles\<close> returns\<close>

lemma shared_styles_entries:
  "concat (map (\<lambda>(swatchName, grades).
                  map (\<lambda>(grade, color).
                         sync doc (formatColorName (ftn swatchName) (Some grade) sharedLayerStyle)
                           (Some color))
                    grades) t) =
   map (\<lambda>(swatchName, grade, color).
          sync doc (formatColorName (ftn swatchName) (Some grade) sharedLayerStyle) (Some color))
     (swatch_entries t)"
  by (induction t) (auto simp: swatch_entries_def)

lemma single_color_names:
  "formatColorName ''black'' None sharedLayerStyle = ''color / black''"
  "formatColorName ''white'' None sharedLayerStyle = ''color / white''"
  "formatColorName ''orange'' None sharedLayerStyle = ''color / orange''"
  "formatColorName ''yellow'' None sharedLayerStyle = ''color / yellow''"
  by (simp_all add: formatColorName_def dashes_to_spaces_def filter_Boolean_def)

text \<open>
  C6: when \<open>colors\<close> has \<open>black\<close>, \<open>white\<close>, \<open>orange\<close> and \<open>yellow\<close>, \<open>syncColorStyles\<close> returns
  one shared style for each (swatch, grade) pair of the swatches, which are the colors
  without those four, followed by four styles: black of grade 100, white of grade 0, orange
  of grade 40, yellow of grade 30. So it returns as many styles as there are pairs, plus
  four.
\<close>

theorem syncColorStyles_result:
  assumes "map_of colors ''black'' = Some black" "map_of colors ''white'' = Some white"
    and "map_of colors ''orange'' = Some orange" "map_of colors ''yellow'' = Some yellow"
  shows "syncColorStyles colors formatTokenName syncColorStyle document =
           Inr (map (\<lambda>(swatchName, grade, color).
                       syncColorStyle document
                         (formatColorName (formatTokenName swatchName) (Some grade) sharedLayerStyle)
                         (Some color))
                  (swatch_entries (swatches colors)) @
                [syncColorStyle document ''color / black'' (map_of black ''100''),
                 syncColorStyle document ''color / white'' (map_of white ''0''),
                 syncColorStyle document ''color / orange'' (map_of orange ''40''),
                 syncColorStyle document ''color / yellow'' (map_of yellow ''30'')]) \<and>
         (\<exists>styles. syncColorStyles colors formatTokenName syncColorStyle document = Inr styles \<and>
                   length styles = length (swatch_entries (swatches colors)) + 4) \<and>
         set (map fst (swatches colors)) =
           set (map fst colors) - {''black'', ''white'', ''orange'', ''yellow''}"
proof -
  have r: "syncColorStyles colors formatTokenName syncColorStyle document =
           Inr (map (\<lambda>(swatchName, grade, color).
                       syncColorStyle document
                         (formatColorName (formatTokenName swatchName) (Some grade) sharedLayerStyle)
                         (Some color))
                  (swatch_entries (swatches colors)) @
                [syncColorStyle document ''color / black'' (map_of black ''100''),
                 syncColorStyle document ''color / white'' (map_of white ''0''),
                 syncColorStyle document ''color / orange'' (map_of orange ''40''),
                 syncColorStyle document ''color / yellow'' (map_of yellow ''30'')])"
    by (simp add: syncColorStyles_def Let_def shared_styles_entries assms single_color_names)
  have s: "set (map fst (swatches colors)) =
           set (map fst colors) - {''black'', ''white'', ''orange'', ''yellow''}"
    by (auto simp: swatches_def)
  show ?thesis unfolding r using s by simp
qed

text \<open>On the sample table: three pairs, so seven styles.\<close>

theorem syncColorStyles_result_witness:
  "map_of sample_colors ''black'' = Some [(''100'', ''#000000'')] \<and>
   map_of sample_colors ''white'' = Some [(''0'', ''#ffffff'')] \<and>
   map_of sample_colors ''orange'' = Some [(''40'', ''#ff832b'')] \<and>
   map_of sample_colors ''yellow'' = Some [(''30'', ''#f1c21b'')] \<and>
   syncColorStyles sample_colors sample_formatTokenName sample_syncColorStyle () =
     Inr [(''color / blue / 10'', Some ''#edf5ff''), (''color / blue / 20'', Some ''#d0e2ff''),
          (''color / cool gray / 10'', Some ''#f2f4f8''),
          (''color / black'', Some ''#000000''), (''color / white'', Some ''#ffffff''),
          (''color / orange'', Some ''#ff832b''), (''color / yellow'', Some ''#f1c21b'')]"
proof -
  have h: "map_of sample_colors ''black'' = Some [(''100'', ''#000000'')]"
    "map_of sample_colors ''white'' = Some [(''0'', ''#ffffff'')]"
    "map_of sample_colors ''orange'' = Some [(''40'', ''#ff832b'')]"
    "map_of sample_colors ''yellow'' = Some [(''30'', ''#f1c21b'')]"
    by (simp_all add: sample_colors_def)
  have e: "swatch_entries (swatches sample_colors) =
      [(''blue'', ''10'', ''#edf5ff''), (''blue'', ''20'', ''#d0e2ff''),
       (''cool-gray'', ''10'', ''#f2f4f8'')]"
    by (simp add: sample_colors_def swatches_def swatch_entries_def)
  have n: "formatColorName ''blue'' (Some ''10'') sharedLayerStyle = ''color / blue / 10''"
    "formatColorName ''blue'' (Some ''20'') sharedLayerStyle = ''color / blue / 20''"
    "formatColorName ''cool-gray'' (Some ''10'') sharedLayerStyle = ''color / cool gray / 10''"
    by (simp_all add: formatColorName_def dashes_to_spaces_def filter_Boolean_def)
  from syncColorStyles_result[OF h, of sample_formatTokenName sample_syncColorStyle "()"] h
  show ?thesis
    by (simp add: e n sample_formatTokenName_def sample_syncColorStyle_def)
qed

section \<open>ErrorBoundary: the fallback\<close>

lemma renders_after_error:
  "hasError b \<Longrightarrow> renders fallback b cs = replicate (length cs) fallback"
  by (induction cs) (simp_all add: render_boundary_def)

text \<open>
  C7: when the subtree of a boundary throws while rendering, the boundary shows its fallback
  in place of the subtree; and from then on every render shows the fallback, whatever the
  subtree would do: nothing is retried.
\<close>

theorem boundary_renders_fallback:
  "snd (render_boundary fallback \<lparr>hasError = False\<rparr> Throws) = fallback \<and>
   renders fallback (fst (render_boundary fallback b Throws)) cs = replicate (length cs) fallback"
proof -
  have "hasError (fst (render_boundary fallback b Throws))"
    by (simp add: render_boundary_def)
  then show ?thesis
    by (simp add: renders_after_error) (simp add: render_boundary_def)
qed

end
